theory Spec2Isabelle
  imports Main "HOL-Library.Multiset" "HOL-Library.AList"
begin

section \<open>Strings, instants and dictionaries\<close>

text \<open>
  A Python \<open>str\<close> is a sequence of Unicode code points, so it is modelled as a list of
  naturals: \<open>chr(65288)\<close> is the number 65288, \<open>'('\<close> is 40, \<open>')'\<close> is 41 and a
  newline is 10. \<open>str\<close> turns an ASCII literal into such a list.

  An aware \<open>datetime\<close> in UTC is the integer number of microseconds since the epoch, a
  \<open>timedelta\<close> the integer number of microseconds. The source turns a \<open>timedelta\<close> into
  float minutes before comparing it with a whole number of minutes; for durations
  of any size a calendar can hold the float comparison agrees with the comparison of
  microseconds written here.
\<close>

type_synonym pystr = "nat list"


definition hour :: "int \<Rightarrow> int" where
  "hour t = (t div 3600000000) mod 24"

definition minute :: "int \<Rightarrow> int" where
  "minute t = (t div 60000000) mod 60"

definition second :: "int \<Rightarrow> int" where
  "second t = (t div 1000000) mod 60"

definition microsecond :: "int \<Rightarrow> int" where
  "microsecond t = t mod 1000000"

text \<open>
  A \<open>dict\<close> keeps its keys in insertion order: it is an association list, read with
  \<open>map_of\<close>, written with \<open>AList.update\<close> (in place when the key exists, at the end
  otherwise). \<open>del d[k]\<close> raises \<open>KeyError\<close> when the key is absent.
\<close>

datatype error = KeyError | AttributeError | TypeError

definition del_item :: "'k \<Rightarrow> ('k \<times> 'v) list \<Rightarrow> error + ('k \<times> 'v) list" where
  "del_item k d = (if map_of d k = None then Inl KeyError else Inr (AList.delete k d))"

section \<open>Configuration\<close>

record env =
  test :: bool
  START_DATETIME :: int
  OHNO_USERS :: "pystr list"
  unicode_alnum :: "nat \<Rightarrow> bool"
  ts_of :: "nat \<Rightarrow> pystr"

text \<open>
  \<open>test\<close> is the \<open>--test\<close> flag. \<open>unicode_alnum\<close> is the part of the regular
  expression class \<open>\w\<close> beyond ASCII, which lives in Python's Unicode tables.
  \<open>ts_of n\<close> is the message id that the messaging platform (or, with \<open>--silent\<close>, the
  random generator) returns for the call of \<open>sendmsg\<close> that follows \<open>n\<close> earlier ones.
\<close>

definition CHALLENGE_TIME_OFFSET :: int where
  "CHALLENGE_TIME_OFFSET = 10"

definition UTCHOURS_ACTIVE_START :: int where
  "UTCHOURS_ACTIVE_START = (8 - CHALLENGE_TIME_OFFSET) mod 24"

definition UTCHOURS_ACTIVE_END :: int where
  "UTCHOURS_ACTIVE_END = (21 - CHALLENGE_TIME_OFFSET) mod 24"

definition MINUTES_NOUSERS :: "env \<Rightarrow> int" where
  "MINUTES_NOUSERS e = (if test e then 55 else 20)"

definition MINUTES_NOTIFY :: "env \<Rightarrow> int" where
  "MINUTES_NOTIFY e = (if test e then 120 else 10)"

definition MINUTES_DANGER :: "env \<Rightarrow> int" where
  "MINUTES_DANGER e = (if test e then 5 else 1)"

definition is_checked_hour :: "int \<Rightarrow> bool" where
  "is_checked_hour h =
     (if UTCHOURS_ACTIVE_START > UTCHOURS_ACTIVE_END
      then h \<ge> UTCHOURS_ACTIVE_START \<or> h < UTCHOURS_ACTIVE_END
      else h \<ge> UTCHOURS_ACTIVE_START \<and> h < UTCHOURS_ACTIVE_END)"

section \<open>Calendar events\<close>

record event =
  start :: int
  end_time :: int
  summary :: pystr
  uid :: pystr

text \<open>
  \<open>get_pending_tutor_cals\<close>: \<open>evs.sort(key=lambda ev: now - ev.start, reverse=True)\<close> is
  a stable sort by descending key, that is by ascending negated key; then the events
  with \<open>(ev.start - now).total_seconds() > 0\<close> are kept in that order. The fetched list
  \<open>get_events()\<close> is the parameter \<open>evs\<close>.
\<close>

definition get_pending_tutor_cals :: "int \<Rightarrow> event list \<Rightarrow> event list" where
  "get_pending_tutor_cals now evs =
     filter (\<lambda>ev. start ev - now > 0) (sort_key (\<lambda>ev. - (now - start ev)) evs)"

subsection \<open>Name extraction\<close>

text \<open>
  \<open>re.search(r'\((.*)\)', summary)\<close>. \<open>dotstar_close acc s\<close> matches the rest of the
  pattern, \<open>(.*)\)\<close>, at the text \<open>s\<close> with \<open>acc\<close> already taken into the group: the
  greedy star first lets \<open>.\<close> take one more character (any but a newline), and only
  when the rest cannot match that way does it try the closing parenthesis here.
  \<open>re_search\<close> tries the start positions from left to right.
\<close>

fun dotstar_close :: "pystr \<Rightarrow> pystr \<Rightarrow> pystr option" where
  "dotstar_close acc [] = None"
| "dotstar_close acc (c # cs) =
     (case (if c \<noteq> 10 then dotstar_close (acc @ [c]) cs else None) of
        Some g \<Rightarrow> Some g
      | None \<Rightarrow> if c = 41 then Some acc else None)"

fun re_search :: "pystr \<Rightarrow> pystr option" where
  "re_search [] = None"
| "re_search (c # cs) =
     (case (if c = 40 then dotstar_close [] cs else None) of
        Some g \<Rightarrow> Some g
      | None \<Rightarrow> re_search cs)"

definition replace :: "nat \<Rightarrow> nat \<Rightarrow> pystr \<Rightarrow> pystr" where
  "replace old new s = map (\<lambda>c. if c = old then new else c) s"

definition extract_name_from_cal :: "event \<Rightarrow> pystr option" where
  "extract_name_from_cal next_tutor_cal =
     re_search (replace 65289 41 (replace 65288 40 (summary next_tutor_cal)))"




section \<open>The bot's state and the messaging gateway\<close>

text \<open>
  The three module-level dictionaries, the hour checked up to, the hash kept in the
  key-value store under \<open>AMENDED_REALNAMETOSLACK_KEY\<close> and the calls of \<open>sendmsg\<close>
  made so far. A key of \<open>tutors_dict\<close> is a name or Python's \<open>None\<close>, since the source
  looks up and stores the extracted name without testing it. A calendar id is the text
  \<open>'{}-{}'.format(start, summary)\<close>; for times in UTC it determines the pair of start
  and summary and is determined by it, so the pair is the key.
\<close>

type_synonym calid = "int \<times> pystr"

record watched =
  sourcename :: "pystr option"
  calid :: calid

record shift =
  cal :: event
  msgid :: pystr
  acked :: bool

datatype who = Mention pystr | Plain "pystr option"

datatype msg =
    Shift_starts pystr "pystr option" int
  | Shift_unknown_user pystr int
  | Shift_no_name int "pystr list"
  | Thanks_ack pystr
  | Thanks_updated pystr pystr
  | No_tutors int int "pystr list"
  | Oh_no who "pystr list"

record sent =
  body :: msg
  threadid :: "pystr option"
  attach :: bool

record state =
  tutors_dict :: "(pystr option \<times> pystr) list"
  msg_id_to_watch :: "(pystr \<times> watched) list"
  already_announced :: "(calid \<times> shift) list"
  checked_hour :: "int option"
  amended :: "(pystr \<times> pystr) list"
  outbox :: "sent list"

text \<open>
  \<open>sendmsg\<close> hands the text, the thread and the attachment to the platform (with
  \<open>--silent\<close> it logs them instead) and returns the message whose \<open>ts\<close> the callers
  read. The model records the call and returns that \<open>ts\<close>. The texts are kept as the
  format string's name with its arguments.
\<close>

definition sendmsg :: "env \<Rightarrow> msg \<Rightarrow> pystr option \<Rightarrow> bool \<Rightarrow> state \<Rightarrow> pystr \<times> state" where
  "sendmsg e txt thr att st =
     (ts_of e (length (outbox st)),
      st\<lparr>outbox := outbox st @ [\<lparr>body = txt, threadid = thr, attach = att\<rparr>]\<rparr>)"

text \<open>\<open>if slackid: ... elif name: ... else: ...\<close>, where \<open>None\<close> and the empty string are false.\<close>

definition message_tutor :: "env \<Rightarrow> pystr option \<Rightarrow> pystr option \<Rightarrow> int \<Rightarrow> state \<Rightarrow> pystr \<times> state" where
  "message_tutor e slackid name impending_tutor_time st =
     sendmsg e
       (case slackid of
          Some s \<Rightarrow>
            if s \<noteq> [] then Shift_starts s name impending_tutor_time
            else (case name of
                    Some n \<Rightarrow> if n \<noteq> [] then Shift_unknown_user n impending_tutor_time
                              else Shift_no_name impending_tutor_time (OHNO_USERS e)
                  | None \<Rightarrow> Shift_no_name impending_tutor_time (OHNO_USERS e))
        | None \<Rightarrow>
            (case name of
               Some n \<Rightarrow> if n \<noteq> [] then Shift_unknown_user n impending_tutor_time
                         else Shift_no_name impending_tutor_time (OHNO_USERS e)
             | None \<Rightarrow> Shift_no_name impending_tutor_time (OHNO_USERS e)))
       None False st"

definition format_real_name :: "pystr option \<Rightarrow> state \<Rightarrow> who" where
  "format_real_name real_name st =
     (case map_of (tutors_dict st) real_name of
        Some slackid \<Rightarrow> Mention slackid
      | None \<Rightarrow> Plain real_name)"

section \<open>The identity resolver\<close>

record member =
  member_id :: pystr
  member_real_name :: "pystr option"
  member_name :: pystr

definition add_tutor :: "member \<Rightarrow> state \<Rightarrow> state" where
  "add_tutor m st =
     (let slackid = member_id m;
          real_name = (case member_real_name m of Some n \<Rightarrow> n | None \<Rightarrow> member_name m)
      in if map_of (tutors_dict st) (Some real_name) = None
         then st\<lparr>tutors_dict := AList.update (Some real_name) slackid (tutors_dict st)\<rparr>
         else st)"

text \<open>
  \<open>load_tutors_dict\<close>: the member list of the platform is the parameter \<open>members\<close>; the
  second loop runs over the items of the stored hash.
\<close>

definition load_tutors_dict :: "member list \<Rightarrow> state \<Rightarrow> state" where
  "load_tutors_dict members st =
     (let st1 = fold add_tutor members st
      in fold (\<lambda>(real_name, slackid) s.
                 s\<lparr>tutors_dict := AList.update (Some real_name) slackid (tutors_dict s)\<rparr>)
              (amended st1) st1)"

section \<open>Inbound events\<close>

text \<open>
  A handler returns the exception it raised, if any, and the state it leaves: what a
  handler wrote before raising stays written.
\<close>

definition rtm_reaction_added :: "env \<Rightarrow> pystr \<Rightarrow> pystr \<Rightarrow> state \<Rightarrow> error option \<times> state" where
  "rtm_reaction_added e mid userid st =
     (case map_of (msg_id_to_watch st) mid of
        None \<Rightarrow> (None, st)
      | Some prev_msg \<Rightarrow>
          let slackid = (case map_of (tutors_dict st) (sourcename prev_msg) of
                           Some s \<Rightarrow> s | None \<Rightarrow> [])
          in if slackid \<noteq> userid then (None, st)
             else
               let st1 = st\<lparr>msg_id_to_watch := AList.delete mid (msg_id_to_watch st)\<rparr>;
                   k = calid prev_msg
               in (case map_of (already_announced st1) k of
                     None \<Rightarrow> (Some KeyError, st1)
                   | Some d \<Rightarrow>
                       let st2 = st1\<lparr>already_announced :=
                                       AList.update k (d\<lparr>acked := True\<rparr>) (already_announced st1)\<rparr>
                       in (None, snd (sendmsg e (Thanks_ack userid) (Some mid) False st2))))"

text \<open>
  \<open>RE_SLACKID.match(text)\<close> with \<open>RE_SLACKID = re.compile('<@(\w+)>')\<close>: \<open>match\<close> tries
  the pattern at the first character only. \<open>'<'\<close> is 60, \<open>'@'\<close> 64, \<open>'>'\<close> 62; \<open>\w\<close> is a
  letter, a digit or the underscore, and never \<open>'>'\<close>, so the greedy \<open>\w+\<close> takes the
  whole run of word characters.
\<close>

definition is_word :: "env \<Rightarrow> nat \<Rightarrow> bool" where
  "is_word e c =
     (if c < 128
      then (48 \<le> c \<and> c \<le> 57) \<or> (65 \<le> c \<and> c \<le> 90) \<or> c = 95 \<or> (97 \<le> c \<and> c \<le> 122)
      else unicode_alnum e c)"

definition RE_SLACKID_match :: "env \<Rightarrow> pystr \<Rightarrow> pystr option" where
  "RE_SLACKID_match e s =
     (case s of
        c1 # c2 # rest \<Rightarrow>
          if c1 = 60 \<and> c2 = 64
          then (let w = takeWhile (is_word e) rest
                in (case dropWhile (is_word e) rest of
                      [] \<Rightarrow> None
                    | c # _ \<Rightarrow> if w \<noteq> [] \<and> c = 62 then Some w else None))
          else None
      | _ \<Rightarrow> None)"

record reply =
  thread_ts :: "pystr option"
  reply_text :: pystr

definition rtm_message :: "env \<Rightarrow> reply \<Rightarrow> state \<Rightarrow> error option \<times> state" where
  "rtm_message e event st =
     (case thread_ts event of
        None \<Rightarrow> (None, st)
      | Some thr \<Rightarrow>
          (case map_of (msg_id_to_watch st) thr of
             None \<Rightarrow> (None, st)
           | Some data \<Rightarrow>
               (case RE_SLACKID_match e (reply_text event) of
                  None \<Rightarrow> (None, st)
                | Some foundid \<Rightarrow>
                    let st1 = st\<lparr>tutors_dict :=
                                    AList.update (sourcename data) foundid (tutors_dict st)\<rparr>
                    in (case sourcename data of
                          None \<Rightarrow> (Some AttributeError, st1)
                        | Some n \<Rightarrow>
                            let st2 = st1\<lparr>amended := AList.update n foundid (amended st1)\<rparr>
                            in (None, snd (sendmsg e (Thanks_updated n foundid) (Some thr) False st2))))))"

section \<open>The poll tick\<close>

text \<open>
  The body of the scan over the pending events that announces one shift: the name, the
  identity the resolver has for it, the notification, and the two table entries.
\<close>

definition announce :: "env \<Rightarrow> int \<Rightarrow> event \<Rightarrow> state \<Rightarrow> state" where
  "announce e now next_tutor_cal st =
     (let k = (start next_tutor_cal, summary next_tutor_cal);
          impending_tutor_time = - (now - start next_tutor_cal);
          name = extract_name_from_cal next_tutor_cal;
          slackid = map_of (tutors_dict st) name;
          (ts, st1) = message_tutor e slackid name impending_tutor_time st
      in st1\<lparr>msg_id_to_watch :=
                AList.update ts \<lparr>sourcename = name, calid = k\<rparr> (msg_id_to_watch st1),
              already_announced :=
                AList.update k \<lparr>cal = next_tutor_cal, msgid = ts, acked = False\<rparr>
                  (already_announced st1)\<rparr>)"

text \<open>
  \<open>for next_tutor_cal in pending\<close>: the flag \<open>notify_missing_tutors\<close> is threaded
  through; \<open>break\<close> ends the loop, \<open>continue\<close> goes on with the rest.
\<close>

fun scan :: "env \<Rightarrow> int \<Rightarrow> int \<Rightarrow> event list \<Rightarrow> bool \<Rightarrow> state \<Rightarrow> bool \<times> state" where
  "scan e now next_check_hour [] notify_missing_tutors st = (notify_missing_tutors, st)"
| "scan e now next_check_hour (next_tutor_cal # rest) notify_missing_tutors st =
     (let notify' = (if hour (start next_tutor_cal) = next_check_hour
                     then False else notify_missing_tutors)
      in if start next_tutor_cal - now \<ge> MINUTES_NOTIFY e * 60000000
         then (notify', st)
         else if map_of (already_announced st) (start next_tutor_cal, summary next_tutor_cal) \<noteq> None
         then scan e now next_check_hour rest notify' st
         else scan e now next_check_hour rest notify' (announce e now next_tutor_cal st))"

text \<open>
  The coverage warning. \<open>rounded_datetime\<close> is the start of the next hour and the text
  carries its timestamp in whole seconds; \<open>checked_hour + CHALLENGE_TIME_OFFSET\<close>
  raises \<open>TypeError\<close> when \<open>checked_hour\<close> is still \<open>None\<close>.
\<close>

definition warn_missing :: "env \<Rightarrow> int \<Rightarrow> state \<Rightarrow> error option \<times> state" where
  "warn_missing e now st =
     (let rounded_datetime =
            now + 3600000000 - (minute now * 60000000 + second now * 1000000 + microsecond now)
      in (case checked_hour st of
            None \<Rightarrow> (Some TypeError, st)
          | Some h \<Rightarrow>
              let local_hour = (h + CHALLENGE_TIME_OFFSET) mod 24
              in (None, snd (sendmsg e (No_tutors (rounded_datetime div 1000000) local_hour
                                          (OHNO_USERS e)) None True st))))"

text \<open>
  The body of \<open>for calid in list(already_announced.keys())\<close>: expiry first, then the
  acknowledged flag, the watched message, the danger threshold, and the escalation.
\<close>

definition check_entry :: "env \<Rightarrow> int \<Rightarrow> calid \<Rightarrow> state \<Rightarrow> error option \<times> state" where
  "check_entry e now k st =
     (case map_of (already_announced st) k of
        None \<Rightarrow> (Some KeyError, st)
      | Some data \<Rightarrow>
          if end_time (cal data) < now
          then (let st1 = st\<lparr>already_announced := AList.delete k (already_announced st)\<rparr>
                in (case del_item (msgid data) (msg_id_to_watch st1) of
                      Inl err \<Rightarrow> (Some err, st1)
                    | Inr w \<Rightarrow> (None, st1\<lparr>msg_id_to_watch := w\<rparr>)))
          else if acked data then (None, st)
          else (case map_of (msg_id_to_watch st) (msgid data) of
                  None \<Rightarrow> (None, st)
                | Some prev_msg \<Rightarrow>
                    if start (cal data) - now > MINUTES_DANGER e * 60000000
                    then (None, st)
                    else
                      let who_text = format_real_name (sourcename prev_msg) st;
                          st1 = snd (sendmsg e (Oh_no who_text (OHNO_USERS e))
                                       (Some (msgid data)) False st)
                      in (None, st1\<lparr>msg_id_to_watch :=
                                       AList.delete (msgid data) (msg_id_to_watch st1)\<rparr>)))"

fun sweep :: "env \<Rightarrow> int \<Rightarrow> calid list \<Rightarrow> state \<Rightarrow> error option \<times> state" where
  "sweep e now [] st = (None, st)"
| "sweep e now (k # ks) st =
     (case check_entry e now k st of
        (Some err, st') \<Rightarrow> (Some err, st')
      | (None, st') \<Rightarrow> sweep e now ks st')"

text \<open>
  \<open>process_calendar\<close>, one poll tick at the instant \<open>now\<close> over the fetched events
  \<open>evs\<close>. A tick runs from its start to its end here: the handlers of inbound events
  that the scheduler may run while a send is awaited are not interleaved.
\<close>

definition process_calendar :: "env \<Rightarrow> int \<Rightarrow> event list \<Rightarrow> state \<Rightarrow> error option \<times> state" where
  "process_calendar e now evs st =
     (if now < START_DATETIME e then (None, st)
      else
        let next_check_hour = hour (now + 3600000000);
            (notify0, st0) =
              (if 60 - minute now < MINUTES_NOUSERS e
               then (checked_hour st \<noteq> Some next_check_hour \<and> is_checked_hour next_check_hour,
                     st\<lparr>checked_hour := Some next_check_hour\<rparr>)
               else (False, st));
            pending = get_pending_tutor_cals now evs;
            (notify1, st1) = scan e now next_check_hour pending notify0 st0
        in (case (if notify1 then warn_missing e now st1 else (None, st1)) of
              (Some err, st2) \<Rightarrow> (Some err, st2)
            | (None, st2) \<Rightarrow> sweep e now (map fst (already_announced st2)) st2))"

text \<open>
  \<open>process_calendar_loop\<close> over the instants and fetched lists of successive ticks:
  an exception leaves the loop, so the ticks after it do not run.
\<close>

fun process_calendar_loop :: "env \<Rightarrow> (int \<times> event list) list \<Rightarrow> state \<Rightarrow> error option \<times> state" where
  "process_calendar_loop e [] st = (None, st)"
| "process_calendar_loop e ((now, evs) # ticks) st =
     (case process_calendar e now evs st of
        (Some err, st') \<Rightarrow> (Some err, st')
      | (None, st') \<Rightarrow> process_calendar_loop e ticks st')"

section \<open>Pending events\<close>

text \<open>
  C9. For every fetched event list and every instant \<open>now\<close>, the pending-event function
  returns exactly the events whose start is strictly after \<open>now\<close> (as a multiset: each
  as often as it was fetched), in ascending order of start.
\<close>

theorem get_pending_tutor_cals_sorted_future:
  "sorted (map start (get_pending_tutor_cals now evs)) \<and>
   mset (get_pending_tutor_cals now evs) = filter_mset (\<lambda>ev. now < start ev) (mset evs)"
proof
  have "sorted (map (\<lambda>ev. - (now - start ev)) (sort_key (\<lambda>ev. - (now - start ev)) evs))"
    by (rule sorted_sort_key)
  then have "sorted (map (\<lambda>ev. - (now - start ev)) (get_pending_tutor_cals now evs))"
    unfolding get_pending_tutor_cals_def by (rule sorted_filter)
  then have "sorted (map (\<lambda>x. x + now) (map (\<lambda>ev. - (now - start ev)) (get_pending_tutor_cals now evs)))"
    by (simp add: sorted_map o_def sorted_wrt_map)
  then show "sorted (map start (get_pending_tutor_cals now evs))"
    by (simp add: o_def)
next
  show "mset (get_pending_tutor_cals now evs) = filter_mset (\<lambda>ev. now < start ev) (mset evs)"
    by (simp add: get_pending_tutor_cals_def)
qed

section \<open>Name extraction\<close>











end
